theory Spec2Isabelle
  imports Main
begin

section \<open>Strings as the handlers use them\<close>

text \<open>
  JavaScript strings are modelled as \<open>string\<close> (a list of characters). The white space
  that \<open>String.prototype.trim\<close> and \<open>parseInt\<close> skip is restricted to the ASCII
  members of the set (tab, line feed, vertical tab, form feed, carriage return, space).
\<close>

definition isWhiteSpace :: "char \<Rightarrow> bool" where
  "isWhiteSpace c \<longleftrightarrow> c \<in> set [CHR 0x09, CHR 0x0A, CHR 0x0B, CHR 0x0C, CHR 0x0D, CHR '' '']"

definition isDigit :: "char \<Rightarrow> bool" where
  "isDigit c \<longleftrightarrow> c \<in> set ''0123456789''"

definition trim :: "string \<Rightarrow> string" where
  "trim s = rev (dropWhile isWhiteSpace (rev (dropWhile isWhiteSpace s)))"

text \<open>\<open>s.split(c)\<close> for a one-character separator: never returns the empty list.\<close>

fun js_split :: "char \<Rightarrow> string \<Rightarrow> string list" where
  "js_split c [] = [[]]"
| "js_split c (x # xs) =
     (if x = c then [] # js_split c xs
      else (case js_split c xs of
              [] \<Rightarrow> [[x]]
            | w # ws \<Rightarrow> (x # w) # ws))"

text \<open>\<open>xs.join(sep)\<close>.\<close>

fun js_join :: "string \<Rightarrow> string list \<Rightarrow> string" where
  "js_join sep [] = []"
| "js_join sep [x] = x"
| "js_join sep (x # y # ys) = x @ sep @ js_join sep (y # ys)"

text \<open>\<open>s.replace(/"/g, '""')\<close>: every double quote is doubled.\<close>

definition doubleQuotes :: "string \<Rightarrow> string" where
  "doubleQuotes s = concat (map (\<lambda>c. if c = CHR 0x22 then [CHR 0x22, CHR 0x22] else [c]) s)"

definition digitVal :: "char \<Rightarrow> int" where
  "digitVal c = int (of_char c) - 48"

text \<open>
  \<open>parseInt(s, 10)\<close>: leading white space is skipped, one sign is read, then the longest
  run of decimal digits; what follows the run is ignored. No digit at all gives \<open>NaN\<close>,
  which is \<open>None\<close> here. (The result is a double in JavaScript: it is exact below
  \<open>2^53\<close>, which is the range the model is meant for.)
\<close>

definition parseInt :: "string \<Rightarrow> int option" where
  "parseInt s =
     (let t = dropWhile isWhiteSpace s;
          neg = (case t of [] \<Rightarrow> False | c # _ \<Rightarrow> c = CHR ''-'');
          u = (case t of [] \<Rightarrow> [] | c # r \<Rightarrow> if c = CHR ''-'' \<or> c = CHR ''+'' then r else t);
          ds = takeWhile isDigit u
      in if ds = [] then None
         else Some ((if neg then - 1 else 1) * foldl (\<lambda>acc d. 10 * acc + digitVal d) 0 ds))"

text \<open>\<open>String(n)\<close> for an integer, as a template literal renders a number.\<close>

fun natToString :: "nat \<Rightarrow> string" where
  "natToString n =
     (if n < 10 then [''0123456789'' ! n]
      else natToString (n div 10) @ [''0123456789'' ! (n mod 10)])"

declare natToString.simps [simp del]

definition intToString :: "int \<Rightarrow> string" where
  "intToString i = (if i < 0 then CHR ''-'' # natToString (nat (- i)) else natToString (nat i))"

section \<open>Values\<close>

text \<open>
  \<open>json\<close> is what \<open>request.json()\<close> returns: a parsed JSON document. \<open>JFrac\<close> stands
  for a number with a fractional part (the schemas only ask whether a number is an integer).
  A \<open>JObj\<close> has each key once, as a parsed object does.
\<close>

datatype json =
    JNull
  | JBool bool
  | JNum int
  | JFrac
  | JStr string
  | JArr "json list"
  | JObj "(string \<times> json) list"

text \<open>
  \<open>jsval\<close> is a run-time value held by a validated object or by a row that a query
  returned. Arrays and dates are objects: they carry the address they were allocated at,
  and \<open>===\<close> compares objects by address, not by content.
\<close>

type_synonym addr = nat

datatype jsval =
    Undefined
  | Null
  | Str string
  | Num int
  | Arr addr "string list"
  | DateV addr int

fun truthy :: "jsval \<Rightarrow> bool" where
  "truthy Undefined = False"
| "truthy Null = False"
| "truthy (Str s) = (s \<noteq> [])"
| "truthy (Num n) = (n \<noteq> 0)"
| "truthy (Arr _ _) = True"
| "truthy (DateV _ _) = True"

fun json_truthy :: "json \<Rightarrow> bool" where
  "json_truthy JNull = False"
| "json_truthy (JBool b) = b"
| "json_truthy (JNum n) = (n \<noteq> 0)"
| "json_truthy JFrac = True"
| "json_truthy (JStr s) = (s \<noteq> [])"
| "json_truthy (JArr _) = True"
| "json_truthy (JObj _) = True"

text \<open>\<open>a === b\<close>: primitives by value, objects by identity.\<close>

fun strictEquals :: "jsval \<Rightarrow> jsval \<Rightarrow> bool" where
  "strictEquals (Arr a _) (Arr b _) = (a = b)"
| "strictEquals (DateV a _) (DateV b _) = (a = b)"
| "strictEquals x y = (x = y)"

text \<open>\<open>a < b\<close> on values; the schemas only reach it with two numbers.\<close>

fun js_less :: "jsval \<Rightarrow> jsval \<Rightarrow> bool" where
  "js_less (Num a) (Num b) = (a < b)"
| "js_less _ _ = False"

text \<open>Property access \<open>obj.key\<close> on a validated object or a materialised row.\<close>

definition getProp :: "(string \<times> jsval) list \<Rightarrow> string \<Rightarrow> jsval" where
  "getProp obj k = (case map_of obj k of None \<Rightarrow> Undefined | Some v \<Rightarrow> v)"

section \<open>The validation schemas (lib/validations/buyer.ts)\<close>

text \<open>
  A field schema maps the value found under a key (\<open>None\<close> when the key is missing, that
  is \<open>undefined\<close>) to the parsed value, or to \<open>None\<close> when the field has an issue.
  \<open>Some Undefined\<close> is a successful parse to \<open>undefined\<close>: the key is left out of the
  result.
\<close>

type_synonym zfield = "json option \<Rightarrow> jsval option"

definition z_string :: "(string \<Rightarrow> bool) \<Rightarrow> zfield" where
  "z_string ok x = (case x of Some (JStr s) \<Rightarrow> if ok s then Some (Str s) else None | _ \<Rightarrow> None)"

definition z_enum :: "string list \<Rightarrow> zfield" where
  "z_enum vs = z_string (\<lambda>s. s \<in> set vs)"

definition z_literal :: "string \<Rightarrow> zfield" where
  "z_literal l = z_string (\<lambda>s. s = l)"

definition z_optional :: "zfield \<Rightarrow> zfield" where
  "z_optional f x = (case x of None \<Rightarrow> Some Undefined | Some _ \<Rightarrow> f x)"

definition z_or :: "zfield \<Rightarrow> zfield \<Rightarrow> zfield" where
  "z_or f g x = (case f x of Some v \<Rightarrow> Some v | None \<Rightarrow> g x)"

definition z_default :: "jsval \<Rightarrow> zfield \<Rightarrow> zfield" where
  "z_default d f x = (case x of None \<Rightarrow> Some d | Some _ \<Rightarrow> f x)"

text \<open>\<open>z.number().int().min(0)\<close>.\<close>

definition z_number_int_min0 :: zfield where
  "z_number_int_min0 x =
     (case x of Some (JNum n) \<Rightarrow> if 0 \<le> n then Some (Num n) else None | _ \<Rightarrow> None)"

fun jsonStrings :: "json list \<Rightarrow> string list option" where
  "jsonStrings [] = Some []"
| "jsonStrings (JStr s # r) = (case jsonStrings r of None \<Rightarrow> None | Some ss \<Rightarrow> Some (s # ss))"
| "jsonStrings (_ # r) = None"

text \<open>\<open>z.array(z.string())\<close>: the result is a new array, allocated at \<open>a\<close>.\<close>

definition z_array_string :: "addr \<Rightarrow> zfield" where
  "z_array_string a x =
     (case x of
        Some (JArr xs) \<Rightarrow> (case jsonStrings xs of None \<Rightarrow> None | Some ss \<Rightarrow> Some (Arr a ss))
      | _ \<Rightarrow> None)"

text \<open>
  The CSV budget cell:
  \<open>z.string().transform(val => val ? parseInt(val, 10) : undefined)
    .pipe(z.number().int().min(0).optional())\<close>.
  The cell must be a string; \<open>NaN\<close> is not a number for \<open>z.number()\<close>.
\<close>

definition csvBudget :: zfield where
  "csvBudget x =
     (case x of
        Some (JStr val) \<Rightarrow>
          if val \<noteq> [] then
            (case parseInt val of
               None \<Rightarrow> None
             | Some n \<Rightarrow> if 0 \<le> n then Some (Num n) else None)
          else Some Undefined
      | _ \<Rightarrow> None)"

text \<open>
  The CSV tags cell:
  \<open>z.string().transform(val => val ? val.split(',').map(tag => tag.trim()).filter(Boolean) : [])
    .optional()\<close>.
\<close>

definition csvTags :: "addr \<Rightarrow> zfield" where
  "csvTags a x =
     (case x of
        None \<Rightarrow> Some Undefined
      | Some (JStr val) \<Rightarrow>
          Some (Arr a (if val \<noteq> [] then filter (\<lambda>t. t \<noteq> []) (map trim (js_split CHR '','' val)) else []))
      | Some _ \<Rightarrow> None)"

definition cityEnum :: "string list" where
  "cityEnum = [''Chandigarh'', ''Mohali'', ''Zirakpur'', ''Panchkula'', ''Other'']"

definition propertyTypeEnum :: "string list" where
  "propertyTypeEnum = [''Apartment'', ''Villa'', ''Plot'', ''Office'', ''Retail'']"

definition bhkEnum :: "string list" where
  "bhkEnum = [''1'', ''2'', ''3'', ''4'', ''Studio'']"

definition purposeEnum :: "string list" where
  "purposeEnum = [''Buy'', ''Rent'']"

definition timelineEnum :: "string list" where
  "timelineEnum = [''0-3m'', ''3-6m'', ''>6m'', ''Exploring'']"

definition sourceEnum :: "string list" where
  "sourceEnum = [''Website'', ''Referral'', ''Walk-in'', ''Call'', ''Other'']"

definition statusEnum :: "string list" where
  "statusEnum = [''New'', ''Qualified'', ''Contacted'', ''Visited'', ''Negotiation'', ''Converted'', ''Dropped'']"

text \<open>\<open>/^\d{10,15}$/\<close>.\<close>

definition phoneRegex :: "string \<Rightarrow> bool" where
  "phoneRegex s \<longleftrightarrow> list_all isDigit s \<and> 10 \<le> length s \<and> length s \<le> 15"

type_synonym shape = "(string \<times> zfield) list"

type_synonym data = "(string \<times> jsval) list"

fun issuesOf :: "(string \<times> jsval option) list \<Rightarrow> string list" where
  "issuesOf [] = []"
| "issuesOf ((k, None) # r) = k # issuesOf r"
| "issuesOf ((k, Some v) # r) = issuesOf r"

fun valuesOf :: "(string \<times> jsval option) list \<Rightarrow> data" where
  "valuesOf [] = []"
| "valuesOf ((k, None) # r) = valuesOf r"
| "valuesOf ((k, Some v) # r) = (if v = Undefined then valuesOf r else (k, v) # valuesOf r)"

text \<open>
  \<open>z.object(shape)\<close>: every field of the shape is parsed, the issues of all fields are
  collected (their paths, here), unknown keys are dropped, and a key whose value parsed
  to \<open>undefined\<close> is left out. An input that is not an object is one issue at the root.
\<close>

definition z_object :: "shape \<Rightarrow> json \<Rightarrow> string list + data" where
  "z_object sh input =
     (case input of
        JObj kvs \<Rightarrow>
          (let results = map (\<lambda>(k, f). (k, f (map_of kvs k))) sh
           in if issuesOf results \<noteq> [] then Inl (issuesOf results) else Inr (valuesOf results))
      | _ \<Rightarrow> Inl [''(root)''])"

text \<open>The first \<open>.refine\<close>: BHK is required for Apartment and Villa.\<close>

definition bhkRule :: "data \<Rightarrow> bool" where
  "bhkRule d =
     (if getProp d ''propertyType'' \<in> set [Str ''Apartment'', Str ''Villa''] \<and> \<not> truthy (getProp d ''bhk'')
      then False else True)"

text \<open>The second \<open>.refine\<close>: budget max against budget min.\<close>

definition budgetRule :: "data \<Rightarrow> bool" where
  "budgetRule d =
     (if truthy (getProp d ''budgetMin'') \<and> truthy (getProp d ''budgetMax'')
         \<and> js_less (getProp d ''budgetMax'') (getProp d ''budgetMin'')
      then False else True)"

text \<open>
  The two refinements run on an object whose fields all parsed; each failing one adds an
  issue at its path (\<open>bhk\<close>, \<open>budgetMax\<close>).
\<close>

definition refinements :: "string list + data \<Rightarrow> string list + data" where
  "refinements r =
     (case r of
        Inl issues \<Rightarrow> Inl issues
      | Inr d \<Rightarrow>
          (let issues = (if bhkRule d then [] else [''bhk''])
                      @ (if budgetRule d then [] else [''budgetMax''])
           in if issues = [] then Inr d else Inl issues))"

text \<open>
  The e-mail and UUID formats are the validation library's own regular expressions; they
  are parameters. \<open>a\<close> is the address at which the parse allocates the tags array.
\<close>

definition createBuyerShape :: "(string \<Rightarrow> bool) \<Rightarrow> addr \<Rightarrow> shape" where
  "createBuyerShape emailOk a =
     [(''fullName'', z_string (\<lambda>s. 2 \<le> length s \<and> length s \<le> 80)),
      (''email'', z_or (z_optional (z_string emailOk)) (z_literal '''')),
      (''phone'', z_string phoneRegex),
      (''city'', z_enum cityEnum),
      (''propertyType'', z_enum propertyTypeEnum),
      (''bhk'', z_optional (z_enum bhkEnum)),
      (''purpose'', z_enum purposeEnum),
      (''budgetMin'', z_optional z_number_int_min0),
      (''budgetMax'', z_optional z_number_int_min0),
      (''timeline'', z_enum timelineEnum),
      (''source'', z_enum sourceEnum),
      (''status'', z_default (Str ''New'') (z_enum statusEnum)),
      (''notes'', z_optional (z_string (\<lambda>s. length s \<le> 1000))),
      (''tags'', z_default (Arr a []) (z_optional (z_array_string a)))]"

definition createBuyerSchema :: "(string \<Rightarrow> bool) \<Rightarrow> addr \<Rightarrow> json \<Rightarrow> string list + data" where
  "createBuyerSchema emailOk a input = refinements (z_object (createBuyerShape emailOk a) input)"

definition csvImportRowShape :: "(string \<Rightarrow> bool) \<Rightarrow> addr \<Rightarrow> shape" where
  "csvImportRowShape emailOk a =
     [(''fullName'', z_string (\<lambda>s. 2 \<le> length s \<and> length s \<le> 80)),
      (''email'', z_or (z_optional (z_string emailOk)) (z_literal '''')),
      (''phone'', z_string phoneRegex),
      (''city'', z_enum cityEnum),
      (''propertyType'', z_enum propertyTypeEnum),
      (''bhk'', z_or (z_optional (z_enum bhkEnum)) (z_literal '''')),
      (''purpose'', z_enum purposeEnum),
      (''budgetMin'', csvBudget),
      (''budgetMax'', csvBudget),
      (''timeline'', z_enum timelineEnum),
      (''source'', z_enum sourceEnum),
      (''notes'', z_or (z_optional (z_string (\<lambda>s. length s \<le> 1000))) (z_literal '''')),
      (''tags'', csvTags a),
      (''status'', z_default (Str ''New'') (z_enum statusEnum))]"

definition csvImportRowSchema :: "(string \<Rightarrow> bool) \<Rightarrow> addr \<Rightarrow> json \<Rightarrow> string list + data" where
  "csvImportRowSchema emailOk a input = refinements (z_object (csvImportRowShape emailOk a) input)"

section \<open>Storage\<close>

text \<open>
  The tables are declared in lib/db/schema, which defines no behaviour of its own; a row
  is the list of its columns, in the order of the data model of the README. \<open>DNull\<close> is
  SQL \<open>NULL\<close>, \<open>DTime\<close> a timestamp in milliseconds.
\<close>

datatype dbval = DNull | DText string | DInt int | DArr "string list" | DTime int

type_synonym row = "(string \<times> dbval) list"

record history =
  h_id :: string
  h_buyerId :: string
  h_changedBy :: string
  h_changedAt :: int
  h_diff :: "(string \<times> dbval \<times> dbval) list"

record db =
  buyers :: "row list"
  buyerHistory :: "history list"
  idSeq :: nat

definition buyerColumns :: "string list" where
  "buyerColumns =
     [''id'', ''fullName'', ''email'', ''phone'', ''city'', ''propertyType'', ''bhk'', ''purpose'',
      ''budgetMin'', ''budgetMax'', ''timeline'', ''source'', ''status'', ''notes'', ''tags'',
      ''ownerId'', ''createdAt'', ''updatedAt'']"

fun toDb :: "jsval \<Rightarrow> dbval" where
  "toDb Undefined = DNull"
| "toDb Null = DNull"
| "toDb (Str s) = DText s"
| "toDb (Num n) = DInt n"
| "toDb (Arr _ xs) = DArr xs"
| "toDb (DateV _ t) = DTime t"

text \<open>A value read from a row; an array or a date is a new object, allocated at \<open>a\<close>.\<close>

fun fromDb :: "addr \<Rightarrow> dbval \<Rightarrow> jsval" where
  "fromDb a DNull = Null"
| "fromDb a (DText s) = Str s"
| "fromDb a (DInt n) = Num n"
| "fromDb a (DArr xs) = Arr a xs"
| "fromDb a (DTime t) = DateV a t"

text \<open>The object a \<open>select\<close> returns for a row: column \<open>i\<close> is allocated at \<open>a + i\<close>.\<close>

definition materialise :: "addr \<Rightarrow> row \<Rightarrow> data" where
  "materialise a r = map (\<lambda>(i, (k, v)). (k, fromDb (a + i) v)) (enumerate 0 r)"

text \<open>\<open>obj[k] = v\<close>: an existing key keeps its place.\<close>

fun assign :: "string \<Rightarrow> 'v \<Rightarrow> (string \<times> 'v) list \<Rightarrow> (string \<times> 'v) list" where
  "assign k v [] = [(k, v)]"
| "assign k v ((k', v') # r) = (if k' = k then (k, v) # r else (k', v') # assign k v r)"

section \<open>What a request meets outside the handlers\<close>

text \<open>
  \<open>emailFormat\<close> and \<open>uuidFormat\<close> are the validation library's format checks;
  \<open>dateGetTime v\<close> is \<open>new Date(v).getTime()\<close> (\<open>None\<close> for \<open>NaN\<close>); \<open>genUuid\<close>
  names the identifiers the database generates; \<open>sqlLike pattern text\<close> is SQL
  \<open>LIKE\<close>. Whether \<open>.partial()\<close> keeps the defaults and the refinements of the
  schema it is applied to depends on the version of the validation library: both are
  parameters. \<open>authUser\<close> is what \<open>getCurrentUser\<close> finds, \<open>rateLimitOk\<close> the answer
  of lib/rate-limit, \<open>now\<close> the clock, \<open>heapTop\<close> the first free address, and
  \<open>dbFault k\<close> says that the \<open>k\<close>-th statement the handler sends to the database
  raises.
\<close>

record ctx =
  emailFormat :: "string \<Rightarrow> bool"
  uuidFormat :: "string \<Rightarrow> bool"
  dateGetTime :: "json \<Rightarrow> int option"
  genUuid :: "nat \<Rightarrow> string"
  sqlLike :: "string \<Rightarrow> string \<Rightarrow> bool"
  partialKeepsDefaults :: bool
  partialKeepsRefinements :: bool
  authUser :: "string option"
  rateLimitOk :: bool
  now :: int
  heapTop :: addr
  dbFault :: "nat \<Rightarrow> bool"

datatype response =
    TooManyRequests
  | ValidationFailed "string list"
  | ServerError
  | Created row
  | Updated "row option"
  | NotFound
  | Conflict
  | BadRequest string
  | ValidationErrorsFound "(nat \<times> string list) list" nat
  | Imported nat
  | CsvContent string

text \<open>
  \<open>db.insert(buyers).values(vals).returning()\<close>: the columns that \<open>vals\<close> does not
  name take their default (a generated \<open>id\<close>, the clock for the two timestamps, \<open>NULL\<close>
  otherwise). Returns the new identifier, the new row and the new state.
\<close>

definition insertBuyer :: "ctx \<Rightarrow> db \<Rightarrow> data \<Rightarrow> string \<times> row \<times> db" where
  "insertBuyer c d vals =
     (let newId = genUuid c (idSeq d);
          generated = [(''id'', DText newId), (''createdAt'', DTime (now c)), (''updatedAt'', DTime (now c))];
          r = map (\<lambda>col. (col, case map_of vals col of
                                  Some v \<Rightarrow> toDb v
                                | None \<Rightarrow> (case map_of generated col of Some g \<Rightarrow> g | None \<Rightarrow> DNull)))
                  buyerColumns
      in (newId, r, d\<lparr>buyers := buyers d @ [r], idSeq := Suc (idSeq d)\<rparr>))"

text \<open>\<open>db.insert(buyerHistory).values({ buyerId, changedBy, diff })\<close>.\<close>

definition insertHistory :: "ctx \<Rightarrow> db \<Rightarrow> string \<Rightarrow> string \<Rightarrow> (string \<times> dbval \<times> dbval) list \<Rightarrow> db" where
  "insertHistory c d buyerId changedBy diff =
     d\<lparr>buyerHistory := buyerHistory d @
          [\<lparr>h_id = genUuid c (idSeq d), h_buyerId = buyerId, h_changedBy = changedBy,
            h_changedAt = now c, h_diff = diff\<rparr>],
       idSeq := Suc (idSeq d)\<rparr>"

section \<open>POST /api/buyers\<close>

text \<open>
  The body is \<open>None\<close> when \<open>request.json()\<close> throws. Every exception that is not a
  validation error ends in the 500 response of the \<open>catch\<close> block. The two inserts are
  two statements, sent one after the other.
\<close>

definition POST_buyers :: "ctx \<Rightarrow> db \<Rightarrow> json option \<Rightarrow> response \<times> db" where
  "POST_buyers c d body =
     (case authUser c of
        None \<Rightarrow> (ServerError, d)
      | Some uid \<Rightarrow>
          if \<not> rateLimitOk c then (TooManyRequests, d)
          else (case body of
                  None \<Rightarrow> (ServerError, d)
                | Some b \<Rightarrow>
                    (case createBuyerSchema (emailFormat c) (heapTop c) b of
                       Inl issues \<Rightarrow> (ValidationFailed issues, d)
                     | Inr validatedData \<Rightarrow>
                         if dbFault c 0 then (ServerError, d)
                         else (case insertBuyer c d (validatedData @ [(''ownerId'', Str uid)]) of
                                 (newId, newBuyer, d1) \<Rightarrow>
                                   if dbFault c 1 then (ServerError, d1)
                                   else (Created newBuyer,
                                         insertHistory c d1 newId uid
                                           [(''created'', DNull, DText ''New buyer created'')])))))"

section \<open>PUT /api/buyers/[id]\<close>

text \<open>
  \<open>createBuyerSchema.partial()\<close> on one field: a present value is parsed as before; a
  missing one is accepted, and becomes the field's default only where the library keeps
  defaults under an optional wrapper.
\<close>

definition z_partial :: "bool \<Rightarrow> zfield \<Rightarrow> zfield" where
  "z_partial keepDefaults f x =
     (case x of
        None \<Rightarrow> (if keepDefaults then (case f None of Some v \<Rightarrow> Some v | None \<Rightarrow> Some Undefined)
                 else Some Undefined)
      | Some _ \<Rightarrow> f x)"

text \<open>The own enumerable properties that \<open>{...body}\<close> copies and the schema can name.\<close>

definition spread :: "json \<Rightarrow> (string \<times> json) list" where
  "spread b = (case b of JObj kvs \<Rightarrow> kvs | _ \<Rightarrow> [])"

text \<open>
  \<open>updateBuyerSchema.parse({ ...body, id, updatedAt: existingBuyer[0].updatedAt })\<close>:
  \<open>id\<close> and \<open>updatedAt\<close> are the handler's own values, whatever the body says;
  \<open>z.string().uuid()\<close> checks the first, \<open>z.date()\<close> the second. The parsed tags
  array is allocated at \<open>a\<close>.
\<close>

definition updateBuyerSchema :: "ctx \<Rightarrow> addr \<Rightarrow> json \<Rightarrow> string \<Rightarrow> jsval \<Rightarrow> string list + data" where
  "updateBuyerSchema c a body ident updatedAt =
     (let results =
            map (\<lambda>(k, f). (k, z_partial (partialKeepsDefaults c) f (map_of (spread body) k)))
                (createBuyerShape (emailFormat c) a)
            @ [(''id'', if uuidFormat c ident then Some (Str ident) else None),
               (''updatedAt'', case updatedAt of DateV _ _ \<Rightarrow> Some updatedAt | _ \<Rightarrow> None)];
          parsed = (if issuesOf results \<noteq> [] then Inl (issuesOf results) else Inr (valuesOf results))
      in if partialKeepsRefinements c then refinements parsed else parsed)"

text \<open>The select of the handler: the row with this id that this user owns.\<close>

definition selectOwned :: "db \<Rightarrow> string \<Rightarrow> string \<Rightarrow> row option" where
  "selectOwned d ident uid =
     find (\<lambda>r. map_of r ''id'' = Some (DText ident) \<and> map_of r ''ownerId'' = Some (DText uid)) (buyers d)"

text \<open>The loop over \<open>Object.keys(validatedData)\<close> that fills \<open>diff\<close>.\<close>

fun calculateDiff :: "data \<Rightarrow> data \<Rightarrow> string list \<Rightarrow> (string \<times> jsval \<times> jsval) list" where
  "calculateDiff existing validated [] = []"
| "calculateDiff existing validated (key # keys) =
     (if key \<noteq> ''id'' \<and> key \<noteq> ''updatedAt'' \<and> key \<noteq> ''ownerId''
         \<and> \<not> strictEquals (getProp existing key) (getProp validated key)
      then (key, getProp existing key, getProp validated key) # calculateDiff existing validated keys
      else calculateDiff existing validated keys)"

text \<open>\<open>db.update(buyers).set(sets).where(eq(buyers.id, id)).returning()\<close>.\<close>

definition setColumns :: "data \<Rightarrow> row \<Rightarrow> row" where
  "setColumns sets r = map (\<lambda>(col, old). (col, case map_of sets col of Some v \<Rightarrow> toDb v | None \<Rightarrow> old)) r"

definition updateBuyer :: "db \<Rightarrow> string \<Rightarrow> data \<Rightarrow> row list \<times> db" where
  "updateBuyer d ident sets =
     (let hit = (\<lambda>r. map_of r ''id'' = Some (DText ident));
          rows = map (\<lambda>r. if hit r then setColumns sets r else r) (buyers d)
      in (filter hit rows, d\<lparr>buyers := rows\<rparr>))"

text \<open>
  The handler after the concurrency check: validation, the diff, the update, and the
  history entry when the diff has a key. The update and the insert are two statements.
\<close>

definition PUT_apply :: "ctx \<Rightarrow> db \<Rightarrow> string \<Rightarrow> string \<Rightarrow> row \<Rightarrow> json \<Rightarrow> response \<times> db" where
  "PUT_apply c d ident uid r body =
     (let existing = materialise (heapTop c) r;
          free = heapTop c + length r
      in case updateBuyerSchema c free body ident (getProp existing ''updatedAt'') of
           Inl issues \<Rightarrow> (ValidationFailed issues, d)
         | Inr validatedData \<Rightarrow>
             (let diff = calculateDiff existing validatedData (map fst validatedData)
              in if dbFault c 1 then (ServerError, d)
                 else (case updateBuyer d ident (assign ''updatedAt'' (DateV (Suc free) (now c)) validatedData) of
                         (updatedBuyer, d1) \<Rightarrow>
                           if diff \<noteq> [] then
                             (if dbFault c 2 then (ServerError, d1)
                              else (Updated (case updatedBuyer of [] \<Rightarrow> None | u # _ \<Rightarrow> Some u),
                                    insertHistory c d1 ident uid
                                      (map (\<lambda>(k, old, new). (k, toDb old, toDb new)) diff)))
                           else (Updated (case updatedBuyer of [] \<Rightarrow> None | u # _ \<Rightarrow> Some u), d1))))"

text \<open>
  \<open>body.updatedAt\<close> throws on \<open>null\<close>; on any other value that is not an object it is
  \<open>undefined\<close>.
\<close>

definition PUT_buyer :: "ctx \<Rightarrow> db \<Rightarrow> string \<Rightarrow> json option \<Rightarrow> response \<times> db" where
  "PUT_buyer c d ident body =
     (case authUser c of
        None \<Rightarrow> (ServerError, d)
      | Some uid \<Rightarrow>
          if \<not> rateLimitOk c then (TooManyRequests, d)
          else (case body of
                  None \<Rightarrow> (ServerError, d)
                | Some b \<Rightarrow>
                    if dbFault c 0 then (ServerError, d)
                    else (case selectOwned d ident uid of
                            None \<Rightarrow> (NotFound, d)
                          | Some r \<Rightarrow>
                              if b = JNull then (ServerError, d)
                              else (case map_of (spread b) ''updatedAt'' of
                                      None \<Rightarrow> PUT_apply c d ident uid r b
                                    | Some supplied \<Rightarrow>
                                        if json_truthy supplied then
                                          (case map_of r ''updatedAt'' of
                                             Some (DTime stored) \<Rightarrow>
                                               if dateGetTime c supplied \<noteq> Some stored then (Conflict, d)
                                               else PUT_apply c d ident uid r b
                                           | _ \<Rightarrow> (ServerError, d))
                                        else PUT_apply c d ident uid r b))))"

section \<open>POST /api/buyers/import\<close>

text \<open>
  The object built for one line of the file:
  \<open>const values = row.split(',').map(v => v.trim())\<close>, then
  \<open>headers.forEach((header, i) => { rowData[header] = values[i] || '' })\<close>.
  A cell that the line does not have is the empty string.
\<close>

definition buildRowData :: "string list \<Rightarrow> string \<Rightarrow> json" where
  "buildRowData headers row =
     (let values = map trim (js_split CHR '','' row)
      in JObj (foldl (\<lambda>rowData (i, header).
                        assign header (JStr (if i < length values then values ! i else [])) rowData)
                     [] (enumerate 0 headers)))"

text \<open>
  \<open>dataRows.forEach((row, index) => ...)\<close>, from row \<open>index\<close> on: the pair of
  \<open>errors\<close> and \<open>validRows\<close>, both in the order of the rows. \<open>parse\<close> is the row
  schema; a thrown validation error carries its issues as its message.
\<close>

fun validateRows ::
  "(addr \<Rightarrow> json \<Rightarrow> string list + data) \<Rightarrow> addr \<Rightarrow> string list \<Rightarrow> string list \<Rightarrow> nat
     \<Rightarrow> (nat \<times> string list) list \<times> data list" where
  "validateRows parse a headers [] index = ([], [])"
| "validateRows parse a headers (row # rest) index =
     (case validateRows parse a headers rest (Suc index) of
        (errors, validRows) \<Rightarrow>
          (case parse (a + index) (buildRowData headers row) of
             Inr validatedRow \<Rightarrow> (errors, validatedRow # validRows)
           | Inl message \<Rightarrow> ((index + 2, message) # errors, validRows)))"

text \<open>
  The body of \<open>db.transaction\<close>: for every valid row the buyer, then its history entry.
  \<open>k\<close> counts the statements sent so far; \<open>None\<close> is an exception from a statement.
\<close>

fun insertRows :: "ctx \<Rightarrow> string \<Rightarrow> db \<Rightarrow> nat \<Rightarrow> data list \<Rightarrow> (row list \<times> db) option" where
  "insertRows c uid d k [] = Some ([], d)"
| "insertRows c uid d k (rowData # rest) =
     (if dbFault c k then None
      else (case insertBuyer c d (rowData @ [(''ownerId'', Str uid)]) of
              (newId, newBuyer, d1) \<Rightarrow>
                if dbFault c (Suc k) then None
                else (case insertRows c uid
                             (insertHistory c d1 newId uid [(''created'', DNull, DText ''Imported from CSV'')])
                             (Suc (Suc k)) rest of
                        None \<Rightarrow> None
                      | Some (results, d2) \<Rightarrow> Some (newBuyer # results, d2))))"

text \<open>
  The handler, for any row schema. \<open>file\<close> is the text of the uploaded file, \<open>None\<close>
  when the form has none. An exception inside the transaction rolls it back: the state
  is the one the request found.
\<close>

definition POST_import_with ::
  "(addr \<Rightarrow> json \<Rightarrow> string list + data) \<Rightarrow> ctx \<Rightarrow> db \<Rightarrow> string option \<Rightarrow> response \<times> db" where
  "POST_import_with parse c d file =
     (case authUser c of
        None \<Rightarrow> (ServerError, d)
      | Some uid \<Rightarrow>
          (case file of
             None \<Rightarrow> (BadRequest ''No file provided'', d)
           | Some text \<Rightarrow>
               (case filter (\<lambda>line. trim line \<noteq> []) (js_split CHR 0x0A text) of
                  [] \<Rightarrow> (BadRequest ''Empty file'', d)
                | line0 # dataRows \<Rightarrow>
                    (let headers = map trim (js_split CHR '','' line0)
                     in if length dataRows > 200 then (BadRequest ''Maximum 200 rows allowed'', d)
                        else (case validateRows parse (heapTop c) headers dataRows 0 of
                                (errors, validRows) \<Rightarrow>
                                  if length errors > 0
                                  then (ValidationErrorsFound errors (length validRows), d)
                                  else (case insertRows c uid d 0 validRows of
                                          None \<Rightarrow> (ServerError, d)
                                        | Some (insertedBuyers, d') \<Rightarrow>
                                            (Imported (length insertedBuyers), d')))))))"

definition POST_import :: "ctx \<Rightarrow> db \<Rightarrow> string option \<Rightarrow> response \<times> db" where
  "POST_import c = POST_import_with (csvImportRowSchema (emailFormat c)) c"

section \<open>GET /api/buyers/export\<close>

record query =
  q_search :: string
  q_city :: string
  q_propertyType :: string
  q_status :: string
  q_timeline :: string

definition textCol :: "row \<Rightarrow> string \<Rightarrow> string option" where
  "textCol r k = (case map_of r k of Some (DText s) \<Rightarrow> Some s | _ \<Rightarrow> None)"

definition intCol :: "row \<Rightarrow> string \<Rightarrow> int option" where
  "intCol r k = (case map_of r k of Some (DInt n) \<Rightarrow> Some n | _ \<Rightarrow> None)"

definition arrCol :: "row \<Rightarrow> string \<Rightarrow> string list option" where
  "arrCol r k = (case map_of r k of Some (DArr xs) \<Rightarrow> Some xs | _ \<Rightarrow> None)"

definition timeCol :: "row \<Rightarrow> string \<Rightarrow> int" where
  "timeCol r k = (case map_of r k of Some (DTime t) \<Rightarrow> t | _ \<Rightarrow> 0)"

text \<open>\<open>like(column, `%${search}%`)\<close>; \<open>NULL LIKE p\<close> is not true.\<close>

definition likeCol :: "ctx \<Rightarrow> string \<Rightarrow> row \<Rightarrow> string \<Rightarrow> bool" where
  "likeCol c search r k =
     (case textCol r k of None \<Rightarrow> False | Some s \<Rightarrow> sqlLike c (''%'' @ search @ ''%'') s)"

definition eqCol :: "string \<Rightarrow> row \<Rightarrow> string \<Rightarrow> bool" where
  "eqCol wanted r k = (if wanted \<noteq> [] then textCol r k = Some wanted else True)"

definition whereConditions :: "ctx \<Rightarrow> query \<Rightarrow> row \<Rightarrow> bool" where
  "whereConditions c q r =
     ((if q_search q \<noteq> []
       then likeCol c (q_search q) r ''fullName'' \<or> likeCol c (q_search q) r ''phone''
            \<or> likeCol c (q_search q) r ''email''
       else True)
      \<and> eqCol (q_city q) r ''city''
      \<and> eqCol (q_propertyType q) r ''propertyType''
      \<and> eqCol (q_status q) r ''status''
      \<and> eqCol (q_timeline q) r ''timeline'')"

text \<open>\<open>`${buyer.k}`\<close> for a text column, and \<open>`${buyer.k || ''}`\<close>.\<close>

definition textField :: "row \<Rightarrow> string \<Rightarrow> string" where
  "textField r k = (case textCol r k of Some s \<Rightarrow> s | None \<Rightarrow> ''null'')"

definition textOrEmpty :: "row \<Rightarrow> string \<Rightarrow> string" where
  "textOrEmpty r k = (case textCol r k of Some s \<Rightarrow> s | None \<Rightarrow> [])"

definition intOrEmpty :: "row \<Rightarrow> string \<Rightarrow> string" where
  "intOrEmpty r k = (case intCol r k of Some n \<Rightarrow> if n = 0 then [] else intToString n | None \<Rightarrow> [])"

definition exportFields :: "row \<Rightarrow> string list" where
  "exportFields buyer =
     [textField buyer ''fullName'',
      textOrEmpty buyer ''email'',
      textField buyer ''phone'',
      textField buyer ''city'',
      textField buyer ''propertyType'',
      textOrEmpty buyer ''bhk'',
      textField buyer ''purpose'',
      intOrEmpty buyer ''budgetMin'',
      intOrEmpty buyer ''budgetMax'',
      textField buyer ''timeline'',
      textField buyer ''source'',
      doubleQuotes (textOrEmpty buyer ''notes''),
      js_join '';'' (case arrCol buyer ''tags'' of Some ts \<Rightarrow> ts | None \<Rightarrow> []),
      textField buyer ''status'']"

definition exportRow :: "row \<Rightarrow> string" where
  "exportRow buyer = js_join '','' (map (\<lambda>field. [CHR 0x22] @ field @ [CHR 0x22]) (exportFields buyer))"

definition exportHeaders :: "string list" where
  "exportHeaders =
     [''fullName'', ''email'', ''phone'', ''city'', ''propertyType'', ''bhk'',
      ''purpose'', ''budgetMin'', ''budgetMax'', ''timeline'', ''source'',
      ''notes'', ''tags'', ''status'']"

definition GET_export :: "ctx \<Rightarrow> db \<Rightarrow> query \<Rightarrow> response" where
  "GET_export c d q =
     (case authUser c of
        None \<Rightarrow> ServerError
      | Some uid \<Rightarrow>
          if dbFault c 0 then ServerError
          else (let buyersList = sort_key (\<lambda>r. timeCol r ''updatedAt'') (filter (whereConditions c q) (buyers d));
                    csvRows = js_join '','' exportHeaders # map exportRow buyersList
                in CsvContent (js_join [CHR 0x0A] csvRows)))"

section \<open>Concrete requests and states\<close>

text \<open>
  One environment, one stored buyer with its creation entry, and the requests the
  theorems below are evaluated at. The library parameters are fixed to simple stand-ins.
\<close>

definition exampleCtx :: ctx where
  "exampleCtx =
     \<lparr>emailFormat = (\<lambda>s. CHR ''@'' \<in> set s),
      uuidFormat = (\<lambda>s. s \<noteq> []),
      dateGetTime = (\<lambda>v. case v of JNum n \<Rightarrow> Some n | _ \<Rightarrow> None),
      genUuid = (\<lambda>n. ''id'' @ natToString n),
      sqlLike = (\<lambda>p s. True),
      partialKeepsDefaults = False,
      partialKeepsRefinements = False,
      authUser = Some ''u1'',
      rateLimitOk = True,
      now = 1000,
      heapTop = 0,
      dbFault = (\<lambda>k. False)\<rparr>"

definition emptyDb :: db where
  "emptyDb = \<lparr>buyers = [], buyerHistory = [], idSeq = 0\<rparr>"

definition exampleBody :: json where
  "exampleBody =
     JObj [(''fullName'', JStr ''Jane \"J\" Roe''), (''phone'', JStr ''9998887777''),
           (''city'', JStr ''Mohali''), (''propertyType'', JStr ''Plot''), (''purpose'', JStr ''Buy''),
           (''timeline'', JStr ''0-3m''), (''source'', JStr ''Website''), (''status'', JStr ''New''),
           (''tags'', JArr [JStr ''vip''])]"

definition exampleRow :: row where
  "exampleRow =
     [(''id'', DText ''id0''), (''fullName'', DText ''Jane \"J\" Roe''), (''email'', DNull),
      (''phone'', DText ''9998887777''), (''city'', DText ''Mohali''), (''propertyType'', DText ''Plot''),
      (''bhk'', DNull), (''purpose'', DText ''Buy''), (''budgetMin'', DNull), (''budgetMax'', DNull),
      (''timeline'', DText ''0-3m''), (''source'', DText ''Website''), (''status'', DText ''New''),
      (''notes'', DNull), (''tags'', DArr [''vip'']), (''ownerId'', DText ''u1''),
      (''createdAt'', DTime 1000), (''updatedAt'', DTime 1000)]"

definition exampleHistory :: history where
  "exampleHistory =
     \<lparr>h_id = ''id1'', h_buyerId = ''id0'', h_changedBy = ''u1'', h_changedAt = 1000,
      h_diff = [(''created'', DNull, DText ''New buyer created'')]\<rparr>"

definition exampleDb :: db where
  "exampleDb = \<lparr>buyers = [exampleRow], buyerHistory = [exampleHistory], idSeq = 2\<rparr>"

definition statusBody :: json where
  "statusBody = JObj [(''status'', JStr ''Contacted'')]"


definition budgetBody :: json where
  "budgetBody =
     JObj [(''fullName'', JStr ''Jane Roe''), (''phone'', JStr ''9998887777''),
           (''city'', JStr ''Mohali''), (''propertyType'', JStr ''Plot''), (''purpose'', JStr ''Buy''),
           (''budgetMin'', JNum 5), (''budgetMax'', JNum 0),
           (''timeline'', JStr ''0-3m''), (''source'', JStr ''Website'')]"

definition csvCellList :: "string \<Rightarrow> string \<Rightarrow> (string \<times> json) list" where
  "csvCellList budgetMin budgetMax =
     [(''fullName'', JStr ''Jane Roe''), (''phone'', JStr ''9998887777''),
      (''city'', JStr ''Mohali''), (''propertyType'', JStr ''Plot''), (''purpose'', JStr ''Buy''),
      (''budgetMin'', JStr budgetMin), (''budgetMax'', JStr budgetMax),
      (''timeline'', JStr ''0-3m''), (''source'', JStr ''Website'')]"

definition csvCells :: "string \<Rightarrow> string \<Rightarrow> json" where
  "csvCells budgetMin budgetMax = JObj (csvCellList budgetMin budgetMax)"

definition allBuyers :: query where
  "allBuyers = \<lparr>q_search = [], q_city = [], q_propertyType = [], q_status = [], q_timeline = []\<rparr>"

definition headerLine :: string where
  "headerLine = ''fullName,phone,city,propertyType,purpose,timeline,source,budgetMin,budgetMax''"

definition goodLine :: string where
  "goodLine = ''Jane Roe,9998887777,Mohali,Plot,Buy,0-3m,Website,,''"

definition badLine :: string where
  "badLine = ''Jane Roe,123,Mohali,Plot,Buy,0-3m,Website,,''"

definition fifthRowBadRows :: "string list" where
  "fifthRowBadRows = replicate 4 goodLine @ [badLine] @ replicate 5 goodLine"

definition fifthRowBad :: string where
  "fifthRowBad = js_join [CHR 0x0A] (headerLine # fifthRowBadRows)"

definition twoGoodRows :: string where
  "twoGoodRows = js_join [CHR 0x0A] [headerLine, goodLine, goodLine]"

definition tooManyRows :: string where
  "tooManyRows = js_join [CHR 0x0A] (headerLine # replicate 201 ''x'')"

section \<open>Lemmas about the building blocks\<close>

lemma validateRows_errors:
  "fst (validateRows parse a hs rows k) =
     map (\<lambda>j. (k + j + 2, projl (parse (a + (k + j)) (buildRowData hs (rows ! j)))))
         (filter (\<lambda>j. isl (parse (a + (k + j)) (buildRowData hs (rows ! j)))) [0..<length rows])"
proof (induction rows arbitrary: k)
  case Nil
  then show ?case by simp
next
  case (Cons row rest)
  have upt: "[0..<length (row # rest)] = 0 # map Suc [0..<length rest]"
    by (simp add: upt_conv_Cons map_Suc_upt del: upt_Suc)
  show ?case
    unfolding upt using Cons.IH [of "Suc k"]
    by (cases "parse (a + k) (buildRowData hs row)")
       (simp_all add: filter_map comp_def case_prod_beta)
qed

lemma validateRows_valid:
  "length (snd (validateRows parse a hs rows k)) =
     length (filter (\<lambda>j. \<not> isl (parse (a + (k + j)) (buildRowData hs (rows ! j)))) [0..<length rows])"
proof (induction rows arbitrary: k)
  case Nil
  then show ?case by simp
next
  case (Cons row rest)
  have upt: "[0..<length (row # rest)] = 0 # map Suc [0..<length rest]"
    by (simp add: upt_conv_Cons map_Suc_upt del: upt_Suc)
  show ?case
    unfolding upt using Cons.IH [of "Suc k"]
    by (cases "parse (a + k) (buildRowData hs row)")
       (simp_all add: filter_map comp_def case_prod_beta)
qed












lemma import_fifthRowBad:
  "POST_import exampleCtx emptyDb (Some fifthRowBad) = (ValidationErrorsFound [(6, [''phone''])] 9, emptyDb)"
  by code_simp

lemma fifthRowBad_lines:
  "filter (\<lambda>line. trim line \<noteq> []) (js_split CHR 0x0A fifthRowBad) = headerLine # fifthRowBadRows"
  by code_simp

section \<open>Atomicity of create and update\<close>

text \<open>
  C1. The claim: a single create and a single update write the record and its history
  entry in one transaction, so that no execution leaves one without the other. The
  handlers send the two writes as two separate statements; only the import wraps its
  statements in \<open>db.transaction\<close>. When the second statement of a create raises, the
  buyer stays stored with no history entry; when the history insert of an update
  raises, the changed record stays stored with no entry for the change; an import whose
  second statement raises leaves the state as it was.
\<close>

theorem create_update_not_atomic:
  "POST_buyers (exampleCtx\<lparr>dbFault := (\<lambda>k. k = 1)\<rparr>) emptyDb (Some exampleBody)
     = (ServerError, \<lparr>buyers = [exampleRow], buyerHistory = [], idSeq = 1\<rparr>)
   \<and> PUT_buyer (exampleCtx\<lparr>now := 2000, dbFault := (\<lambda>k. k = 2)\<rparr>) exampleDb ''id0'' (Some statusBody)
     = (ServerError,
        \<lparr>buyers = [assign ''updatedAt'' (DTime 2000) (assign ''status'' (DText ''Contacted'') exampleRow)],
         buyerHistory = [exampleHistory], idSeq = 2\<rparr>)
   \<and> POST_import (exampleCtx\<lparr>dbFault := (\<lambda>k. k = 1)\<rparr>) emptyDb (Some twoGoodRows)
     = (ServerError, emptyDb)"
  by code_simp

section \<open>The diff of an update\<close>

text \<open>
  C2. The claim: diffing a stored record against a payload that carries the same values
  gives the empty change set, and such an update inserts no history entry. The handler
  compares with \<open>!==\<close>; the stored tags and the submitted tags are two arrays, so they
  always differ. The payload below repeats the stored values of the example buyer, and the
  update inserts a history entry whose change set maps \<open>tags\<close> from \<open>[vip]\<close> to
  \<open>[vip]\<close>, whatever \<open>.partial()\<close> does with defaults and refinements.
\<close>

theorem noop_update_inserts_history:
  "PUT_buyer (exampleCtx\<lparr>now := 2000, partialKeepsDefaults := kd, partialKeepsRefinements := kr\<rparr>)
       exampleDb ''id0'' (Some exampleBody)
     = (Updated (Some (assign ''updatedAt'' (DTime 2000) exampleRow)),
        \<lparr>buyers = [assign ''updatedAt'' (DTime 2000) exampleRow],
         buyerHistory =
           [exampleHistory,
            \<lparr>h_id = ''id2'', h_buyerId = ''id0'', h_changedBy = ''u1'', h_changedAt = 2000,
             h_diff = [(''tags'', DArr [''vip''], DArr [''vip''])]\<rparr>],
         idSeq = 3\<rparr>)"
proof -
  let ?r = "(Updated (Some (assign ''updatedAt'' (DTime 2000) exampleRow)),
        \<lparr>buyers = [assign ''updatedAt'' (DTime 2000) exampleRow],
         buyerHistory =
           [exampleHistory,
            \<lparr>h_id = ''id2'', h_buyerId = ''id0'', h_changedBy = ''u1'', h_changedAt = 2000,
             h_diff = [(''tags'', DArr [''vip''], DArr [''vip''])]\<rparr>],
         idSeq = 3\<rparr>)"
  have tt: "PUT_buyer (exampleCtx\<lparr>now := 2000, partialKeepsDefaults := True, partialKeepsRefinements := True\<rparr>)
              exampleDb ''id0'' (Some exampleBody) = ?r"
    by code_simp
  have tf: "PUT_buyer (exampleCtx\<lparr>now := 2000, partialKeepsDefaults := True, partialKeepsRefinements := False\<rparr>)
              exampleDb ''id0'' (Some exampleBody) = ?r"
    by code_simp
  have ft: "PUT_buyer (exampleCtx\<lparr>now := 2000, partialKeepsDefaults := False, partialKeepsRefinements := True\<rparr>)
              exampleDb ''id0'' (Some exampleBody) = ?r"
    by code_simp
  have ff: "PUT_buyer (exampleCtx\<lparr>now := 2000, partialKeepsDefaults := False, partialKeepsRefinements := False\<rparr>)
              exampleDb ''id0'' (Some exampleBody) = ?r"
    by code_simp
  show ?thesis
    by (cases kd; cases kr) (simp_all add: tt tf ft ff)
qed

section \<open>The budget rule\<close>

text \<open>
  C6. The claim: validation fails on the budget rule exactly when both budgets are
  present and the maximum is below the minimum. The rule tests the two values for
  truthiness, and \<open>0\<close> is falsy: with a minimum of 5 and a maximum of 0 both are
  present, the maximum is below the minimum, and both schemas accept the record.
\<close>

theorem budget_max_zero_accepted:
  "createBuyerSchema (emailFormat exampleCtx) 0 budgetBody
     = Inr [(''fullName'', Str ''Jane Roe''), (''phone'', Str ''9998887777''), (''city'', Str ''Mohali''),
            (''propertyType'', Str ''Plot''), (''purpose'', Str ''Buy''), (''budgetMin'', Num 5),
            (''budgetMax'', Num 0), (''timeline'', Str ''0-3m''), (''source'', Str ''Website''),
            (''status'', Str ''New''), (''tags'', Arr 0 [])]
   \<and> csvImportRowSchema (emailFormat exampleCtx) 0 (csvCells ''5'' ''0'')
     = Inr [(''fullName'', Str ''Jane Roe''), (''phone'', Str ''9998887777''), (''city'', Str ''Mohali''),
            (''propertyType'', Str ''Plot''), (''purpose'', Str ''Buy''), (''budgetMin'', Num 5),
            (''budgetMax'', Num 0), (''timeline'', Str ''0-3m''), (''source'', Str ''Website''),
            (''status'', Str ''New'')]"
  by code_simp

section \<open>The exported file\<close>

text \<open>
  C9. The claim: every field of every exported row is wrapped in double quotes with the
  double quotes inside it doubled. The handler doubles the quotes of \<open>notes\<close> only: the
  name of the example buyer is exported with its two inner quotes as they are.
\<close>

theorem export_name_quotes_not_doubled:
  "GET_export exampleCtx exampleDb allBuyers =
     CsvContent
       (''fullName,email,phone,city,propertyType,bhk,purpose,budgetMin,budgetMax,timeline,source,notes,tags,status''
        @ [CHR 0x0A]
        @ ''\"Jane \"J\" Roe\",\"\",\"9998887777\",\"Mohali\",\"Plot\",\"\",\"Buy\",\"\",\"\",\"0-3m\",\"Website\",\"\",\"vip\",\"New\"'')"
  by code_simp

section \<open>The import of a batch\<close>

text \<open>
  C3. For every parsed batch (a file with a header line and at most 200 data rows): if
  at least one data row fails validation, nothing is stored (the state is the one the
  request found) and the one response lists every failing row, in the order of the rows,
  with its row number and its issues, next to the count of the rows that validated. The
  theorem holds for any row schema \<open>parse\<close>; the handler is the instance
  \<open>csvImportRowSchema\<close>.
\<close>

theorem import_all_or_nothing:
  assumes auth: "authUser c = Some uid"
    and lines: "filter (\<lambda>line. trim line \<noteq> []) (js_split CHR 0x0A text) = line0 # dataRows"
    and size: "length dataRows \<le> 200"
    and i: "i < length dataRows"
    and bad: "isl (parse (heapTop c + i) (buildRowData (map trim (js_split CHR '','' line0)) (dataRows ! i)))"
  shows "POST_import_with parse c d (Some text) =
           (let result = (\<lambda>j. parse (heapTop c + j) (buildRowData (map trim (js_split CHR '','' line0)) (dataRows ! j)))
            in (ValidationErrorsFound
                  (map (\<lambda>j. (j + 2, projl (result j))) (filter (\<lambda>j. isl (result j)) [0..<length dataRows]))
                  (length (filter (\<lambda>j. \<not> isl (result j)) [0..<length dataRows])),
                d))"
proof -
  let ?hs = "map trim (js_split CHR '','' line0)"
  let ?v = "validateRows parse (heapTop c) ?hs dataRows 0"
  have "i \<in> set (filter (\<lambda>j. isl (parse (heapTop c + j) (buildRowData ?hs (dataRows ! j)))) [0..<length dataRows])"
    using i bad by simp
  then have ne0: "filter (\<lambda>j. isl (parse (heapTop c + j) (buildRowData ?hs (dataRows ! j)))) [0..<length dataRows] \<noteq> []"
    by (metis empty_iff list.set(1))
  have e: "fst ?v = map (\<lambda>j. (j + 2, projl (parse (heapTop c + j) (buildRowData ?hs (dataRows ! j)))))
         (filter (\<lambda>j. isl (parse (heapTop c + j) (buildRowData ?hs (dataRows ! j)))) [0..<length dataRows])"
    using validateRows_errors [of parse "heapTop c" ?hs dataRows 0] by simp
  have n: "length (snd ?v) = length (filter (\<lambda>j. \<not> isl (parse (heapTop c + j) (buildRowData ?hs (dataRows ! j)))) [0..<length dataRows])"
    using validateRows_valid [of parse "heapTop c" ?hs dataRows 0] by simp
  from ne0 e have ne: "fst ?v \<noteq> []" by simp
  obtain errors validRows where v: "?v = (errors, validRows)" by (cases ?v)
  with ne e n auth lines size show ?thesis
    by (simp add: POST_import_with_def Let_def)
qed

text \<open>
  The batch of ten rows whose fifth row has a three-digit phone: nothing is stored.
\<close>

theorem import_all_or_nothing_witness:
  "authUser exampleCtx = Some ''u1''
   \<and> filter (\<lambda>line. trim line \<noteq> []) (js_split CHR 0x0A fifthRowBad) = headerLine # fifthRowBadRows
   \<and> length fifthRowBadRows \<le> 200
   \<and> (4::nat) < length fifthRowBadRows
   \<and> isl (csvImportRowSchema (emailFormat exampleCtx) (heapTop exampleCtx + 4)
             (buildRowData (map trim (js_split CHR '','' headerLine)) (fifthRowBadRows ! 4)))
   \<and> snd (POST_import exampleCtx emptyDb (Some fifthRowBad)) = emptyDb"
proof -
  have a: "authUser exampleCtx = Some ''u1''" by code_simp
  have c: "length fifthRowBadRows \<le> 200" by code_simp
  have d: "(4::nat) < length fifthRowBadRows" by code_simp
  have e: "isl (csvImportRowSchema (emailFormat exampleCtx) (heapTop exampleCtx + 4)
             (buildRowData (map trim (js_split CHR '','' headerLine)) (fifthRowBadRows ! 4)))"
    by code_simp
  from import_all_or_nothing [where d = emptyDb and parse = "csvImportRowSchema (emailFormat exampleCtx)",
         OF a fifthRowBad_lines c d e]
  have "snd (POST_import exampleCtx emptyDb (Some fifthRowBad)) = emptyDb"
    by (simp add: POST_import_def Let_def)
  with a fifthRowBad_lines c d e show ?thesis by blast
qed

text \<open>
  C8. The claim: the first data row reports as row 2, and a batch whose fifth data row
  is invalid reports it as row 7. The handler reports \<open>index + 2\<close> for the 0-based
  \<open>index\<close> of the row among the data rows: the first data row is row 2, the fifth is
  row 6. Amended: the reported row numbers are, in order, \<open>j + 2\<close> for every 0-based
  index \<open>j\<close> of a data row that fails validation.
\<close>

theorem import_error_row_numbers:
  assumes lines: "filter (\<lambda>line. trim line \<noteq> []) (js_split CHR 0x0A text) = line0 # dataRows"
    and resp: "fst (POST_import_with parse c d (Some text)) = ValidationErrorsFound errors n"
  shows "map fst errors =
           map (\<lambda>j. j + 2)
               (filter (\<lambda>j. isl (parse (heapTop c + j) (buildRowData (map trim (js_split CHR '','' line0)) (dataRows ! j))))
                       [0..<length dataRows])"
proof -
  let ?hs = "map trim (js_split CHR '','' line0)"
  let ?v = "validateRows parse (heapTop c) ?hs dataRows 0"
  have e: "fst ?v = map (\<lambda>j. (j + 2, projl (parse (heapTop c + j) (buildRowData ?hs (dataRows ! j)))))
         (filter (\<lambda>j. isl (parse (heapTop c + j) (buildRowData ?hs (dataRows ! j)))) [0..<length dataRows])"
    using validateRows_errors [of parse "heapTop c" ?hs dataRows 0] by simp
  have "errors = fst ?v"
    using resp lines
    by (auto simp: POST_import_with_def Let_def split: option.splits if_splits prod.splits)
  with e show ?thesis by (simp add: comp_def)
qed

text \<open>
  At the batch of ten rows whose fifth row is invalid, the reported row numbers are \<open>[6]\<close>.
\<close>

theorem import_error_row_numbers_witness:
  "filter (\<lambda>line. trim line \<noteq> []) (js_split CHR 0x0A fifthRowBad) = headerLine # fifthRowBadRows
   \<and> fst (POST_import_with (csvImportRowSchema (emailFormat exampleCtx)) exampleCtx emptyDb (Some fifthRowBad))
       = ValidationErrorsFound [(6, [''phone''])] 9
   \<and> map (\<lambda>j. j + 2)
        (filter (\<lambda>j. isl (csvImportRowSchema (emailFormat exampleCtx) (heapTop exampleCtx + j)
                            (buildRowData (map trim (js_split CHR '','' headerLine)) (fifthRowBadRows ! j))))
                [0..<length fifthRowBadRows]) = [6]"
proof -
  have r: "fst (POST_import_with (csvImportRowSchema (emailFormat exampleCtx)) exampleCtx emptyDb (Some fifthRowBad))
       = ValidationErrorsFound [(6, [''phone''])] 9"
    using import_fifthRowBad unfolding POST_import_def by (simp only: fst_conv)
  from import_error_row_numbers [OF fifthRowBad_lines r]
  have "map (\<lambda>j. j + 2)
        (filter (\<lambda>j. isl (csvImportRowSchema (emailFormat exampleCtx) (heapTop exampleCtx + j)
                            (buildRowData (map trim (js_split CHR '','' headerLine)) (fifthRowBadRows ! j))))
                [0..<length fifthRowBadRows]) = [6]"
    by (simp only: list.map fst_conv)
  with fifthRowBad_lines r show ?thesis by blast
qed

text \<open>
  The claim as stated fails there: the only error names row 6, not row 7.
\<close>

theorem fifth_row_reports_six:
  "POST_import exampleCtx emptyDb (Some fifthRowBad) = (ValidationErrorsFound [(6, [''phone''])] 9, emptyDb)"
  by (rule import_fifthRowBad)

text \<open>
  C10. For every file with more than 200 data rows (more than 201 lines that are not
  blank), the import is answered with the batch-size error and the state is unchanged,
  whatever the row schema \<open>parse\<close> is: no row is validated before the rejection.
\<close>

theorem import_rejects_oversized_batch:
  assumes "authUser c = Some uid"
    and "201 < length (filter (\<lambda>line. trim line \<noteq> []) (js_split CHR 0x0A text))"
  shows "POST_import_with parse c d (Some text) = (BadRequest ''Maximum 200 rows allowed'', d)
       \<and> POST_import c d (Some text) = (BadRequest ''Maximum 200 rows allowed'', d)"
  using assms
  by (cases "filter (\<lambda>line. trim line \<noteq> []) (js_split CHR 0x0A text)")
     (simp_all add: POST_import_with_def POST_import_def)

text \<open>
  A header and 201 data rows, none of which would validate.
\<close>

theorem import_rejects_oversized_batch_witness:
  "authUser exampleCtx = Some ''u1''
   \<and> 201 < length (filter (\<lambda>line. trim line \<noteq> []) (js_split CHR 0x0A tooManyRows))
   \<and> POST_import exampleCtx exampleDb (Some tooManyRows) = (BadRequest ''Maximum 200 rows allowed'', exampleDb)"
proof -
  have a: "authUser exampleCtx = Some ''u1''" by code_simp
  have b: "201 < length (filter (\<lambda>line. trim line \<noteq> []) (js_split CHR 0x0A tooManyRows))" by code_simp
  from import_rejects_oversized_batch [where d = exampleDb and parse = "csvImportRowSchema (emailFormat exampleCtx)", OF a b] a b
  show ?thesis by blast
qed

section \<open>The concurrency check of an update\<close>





section \<open>The budget cells of a CSV row\<close>




end
